theory Spec2Isabelle
  imports Complex_Main
begin

section \<open>The training utilities of \<^verbatim>\<open>code/utils.py\<close>\<close>

text \<open>
  The development follows \<^verbatim>\<open>code/utils.py\<close>: the smoothed value, the weighted average,
  the preparation of the log file, saving and loading of checkpoints, and the training
  loop \<^verbatim>\<open>Learner.fit\<close>. Python floats and 0-dimensional tensors are read as real
  numbers (rounding is not modelled), a Python \<^verbatim>\<open>raise\<close> is a value of an error
  type, and the attributes that a method assigns are fields of a record that the
  method returns updated.
\<close>

subsection \<open>Exceptions\<close>

text \<open>
  The exceptions that the code of the file itself can raise. \<open>LoadError\<close> stands for
  whatever \<^verbatim>\<open>torch.load\<close> raises on a file it cannot deserialise.
\<close>

datatype py_error =
  AttributeError | KeyError | RuntimeError | TypeError | UnboundLocalError
  | ZeroDivisionError | LoadError

subsection \<open>\<^verbatim>\<open>SmoothenValue\<close>\<close>

text \<open>
  The fields \<^verbatim>\<open>beta\<close>, \<^verbatim>\<open>n\<close>, \<^verbatim>\<open>mov_avg\<close> and \<^verbatim>\<open>smooth\<close>; the counter
  \<^verbatim>\<open>n\<close> is called \<open>n_seen\<close> here.
\<close>

record smoothen_value =
  beta :: real
  n_seen :: nat
  mov_avg :: real
  smooth :: real

definition SmoothenValue :: "real \<Rightarrow> smoothen_value" where
  "SmoothenValue b = \<lparr>beta = b, n_seen = 0, mov_avg = 0, smooth = 0\<rparr>"

text \<open>
  \<^verbatim>\<open>add_value\<close> assigns \<^verbatim>\<open>n\<close> and \<^verbatim>\<open>mov_avg\<close> first; the division of Python
  floats raises \<^verbatim>\<open>ZeroDivisionError\<close> when the divisor is zero, and then
  \<^verbatim>\<open>smooth\<close> keeps its old value.
\<close>

definition add_value :: "real \<Rightarrow> smoothen_value \<Rightarrow> py_error option \<times> smoothen_value" where
  "add_value val s =
     (let s1 = s\<lparr>n_seen := n_seen s + 1\<rparr>;
          s2 = s1\<lparr>mov_avg := beta s1 * mov_avg s1 + (1 - beta s1) * val\<rparr>;
          d = 1 - beta s2 ^ n_seen s2
      in if d = 0 then (Some ZeroDivisionError, s2)
         else (None, s2\<lparr>smooth := mov_avg s2 / d\<rparr>))"

text \<open>A sequence of calls, stopping at the first one that raises.\<close>

fun add_values :: "real list \<Rightarrow> smoothen_value \<Rightarrow> py_error option \<times> smoothen_value" where
  "add_values [] s = (None, s)"
| "add_values (x # xs) s =
     (case add_value x s of
        (Some e, s') \<Rightarrow> (Some e, s')
      | (None, s') \<Rightarrow> add_values xs s')"

text \<open>The raw exponential moving average, as the claim words it.\<close>

fun raw_ema :: "real \<Rightarrow> real \<Rightarrow> real list \<Rightarrow> real" where
  "raw_ema b m [] = m"
| "raw_ema b m (x # xs) = raw_ema b (b * m + (1 - b) * x) xs"

subsection \<open>\<^verbatim>\<open>compute_avg\<close>\<close>

text \<open>
  \<^verbatim>\<open>(torch.stack(inp) * nums).sum() / nums.sum()\<close>, for a list \<^verbatim>\<open>inp\<close> of
  0-dimensional tensors and a 1-dimensional tensor \<^verbatim>\<open>nums\<close>.
  \<^verbatim>\<open>torch.stack\<close> raises \<^verbatim>\<open>RuntimeError\<close> on an empty list. The product of two
  1-dimensional tensors follows the broadcasting rule: the sizes must be equal, or one
  of them is 1 and that operand is repeated; any other pair of sizes raises
  \<^verbatim>\<open>RuntimeError\<close>. The division of tensors does not raise: a zero divisor gives
  \<^verbatim>\<open>nan\<close> or an infinity, written \<open>NotFinite\<close>.
\<close>

datatype tensor_value = Finite real | NotFinite

definition tensor_div :: "real \<Rightarrow> real \<Rightarrow> tensor_value" where
  "tensor_div a b = (if b = 0 then NotFinite else Finite (a / b))"

definition stack :: "real list \<Rightarrow> py_error + real list" where
  "stack inp = (if inp = [] then Inl RuntimeError else Inr inp)"

definition tensor_mul :: "real list \<Rightarrow> real list \<Rightarrow> py_error + real list" where
  "tensor_mul xs ys =
     (if length xs = length ys then Inr (map2 (*) xs ys)
      else if length xs = 1 then Inr (map ((*) (hd xs)) ys)
      else if length ys = 1 then Inr (map (\<lambda>x. x * hd ys) xs)
      else Inl RuntimeError)"

definition compute_avg :: "real list \<Rightarrow> real list \<Rightarrow> py_error + tensor_value" where
  "compute_avg inp nums =
     (case stack inp of
        Inl e \<Rightarrow> Inl e
      | Inr t \<Rightarrow>
          (case tensor_mul t nums of
             Inl e \<Rightarrow> Inl e
           | Inr p \<Rightarrow> Inr (tensor_div (sum_list p) (sum_list nums))))"

subsection \<open>Text written by the code\<close>

definition nl :: char where
  "nl = CHR 0x0A"

text \<open>\<^verbatim>\<open>sep.join(xs)\<close>.\<close>

fun str_join :: "string \<Rightarrow> string list \<Rightarrow> string" where
  "str_join sep [] = []"
| "str_join sep [x] = x"
| "str_join sep (x # y # ys) = x @ sep @ str_join sep (y # ys)"

text \<open>
  \<^verbatim>\<open>str\<close> of a non-negative integer, as the f-string prints the loop variable
  \<^verbatim>\<open>epoch\<close>. The equation is used one numeral at a time, so it is not a
  simplification rule.
\<close>

fun str_nat :: "nat \<Rightarrow> string" where
  "str_nat k =
     (if k < 10 then [''0123456789'' ! k]
      else str_nat (k div 10) @ [''0123456789'' ! (k mod 10)])"

declare str_nat.simps [simp del]



subsection \<open>Files, configuration and the learner\<close>

text \<open>
  A file that is opened in mode \<^verbatim>\<open>'wb'\<close> is cut to length zero before anything is
  written to it; \<open>Truncated\<close> is a file in that state or with part of a record in it,
  \<open>Whole c\<close> a file that holds the complete serialised record \<open>c\<close>.
\<close>

datatype 'a file_state = Missing | Truncated | Whole 'a

text \<open>
  The options of \<^verbatim>\<open>cfg\<close> that the modelled methods read; \<open>json_dumps\<close> is the text
  \<^verbatim>\<open>json.dumps(self.cfg)\<close>.
\<close>

record config =
  resume :: bool
  resume_path :: string
  load_opt :: bool
  load_normally :: bool
  del_existing :: bool
  json_dumps :: string

text \<open>
  The checkpoint dictionary. A key may be absent from a record that is loaded, so every
  key is optional; the keys \<^verbatim>\<open>num_it\<close>, \<^verbatim>\<open>num_epoch\<close>, \<^verbatim>\<open>cfgtxt\<close> and
  \<^verbatim>\<open>best_met\<close> carry the prefix \<open>ck_\<close>. The state dictionaries of the model, the
  optimizer and the scheduler are values of a type \<open>'w\<close> that is not looked into.
\<close>

record 'w checkpoint =
  model_state_dict :: "'w option"
  optimizer_state_dict :: "'w option"
  scheduler_state_dict :: "'w option"
  ck_num_it :: "int option"
  ck_num_epoch :: "int option"
  ck_cfgtxt :: "string option"
  ck_best_met :: "real option"

text \<open>
  The calls of \<^verbatim>\<open>save_model_dict\<close> and \<^verbatim>\<open>update_prediction_file\<close> are recorded,
  each with the value of \<^verbatim>\<open>num_epoch\<close> at the call.
\<close>

datatype call = SaveModelDict int | UpdatePredictionFile int

text \<open>
  The attributes of a \<^verbatim>\<open>Learner\<close> that the modelled methods use, together with the
  files they touch: the text of the log file (\<open>None\<close> when it does not exist), the
  checkpoint files by path, and the predictions file. \<open>model_file\<close> is the path
  \<^verbatim>\<open>models/{uid}.pth\<close>.
\<close>

record ('w, 'p) learner =
  cfg :: config
  loss_keys :: "string list"
  met_keys :: "string list"
  log_keys :: "string list"
  log_file :: "string option"
  model_file :: string
  checkpoints :: "string \<Rightarrow> 'w checkpoint file_state"
  predictions_file :: "'p file_state"
  num_it :: int
  num_epoch :: int
  best_met :: real
  mdl :: 'w
  optimizer :: 'w
  lr_scheduler :: 'w
  calls :: "call list"

subsection \<open>The log file\<close>


text \<open>
  \<^verbatim>\<open>prepare_log_file\<close>. When the log file exists and \<^verbatim>\<open>cfg['del_existing']\<close> is set,
  the first statement of the branch reads \<^verbatim>\<open>self.log_dir\<close>. The class has the fields
  \<^verbatim>\<open>uid\<close>, \<^verbatim>\<open>data\<close>, \<^verbatim>\<open>mdl\<close>, \<^verbatim>\<open>loss_fn\<close>, \<^verbatim>\<open>cfg\<close>, \<^verbatim>\<open>eval_fn\<close>,
  \<^verbatim>\<open>opt_fn\<close> and \<^verbatim>\<open>device\<close>, and \<^verbatim>\<open>__post_init__\<close> assigns \<^verbatim>\<open>logger\<close>,
  \<^verbatim>\<open>loss_keys\<close>, \<^verbatim>\<open>met_keys\<close>, \<^verbatim>\<open>log_keys\<close>, \<^verbatim>\<open>log_file\<close>, \<^verbatim>\<open>tb_log_dir\<close>,
  \<^verbatim>\<open>extra_log_dir\<close>, \<^verbatim>\<open>predictions_file\<close> and \<^verbatim>\<open>model_file\<close>: no attribute
  \<^verbatim>\<open>log_dir\<close> exists, the read raises \<^verbatim>\<open>AttributeError\<close>, and the calls of
  \<^verbatim>\<open>shutil.rmtree\<close> and \<^verbatim>\<open>open('w')\<close> after it are not reached.
  In the two other branches the file is opened, in mode \<^verbatim>\<open>'a'\<close> (the text it has is
  kept) or in mode \<^verbatim>\<open>'w'\<close> (it starts empty), and the three writes that follow the
  \<^verbatim>\<open>if\<close> are made to it.
\<close>

definition prepare_log_file ::
  "('w, 'p) learner \<Rightarrow> py_error option \<times> ('w, 'p) learner" where
  "prepare_log_file s =
     (case (case log_file s of
              Some old \<Rightarrow> if del_existing (cfg s) then Inl AttributeError else Inr old
            | None \<Rightarrow> Inr []) of
        Inl e \<Rightarrow> (Some e, s)
      | Inr f \<Rightarrow>
          (None, s\<lparr>log_file :=
             Some (f @ json_dumps (cfg s) @ [nl, nl] @ str_join ''  '' (log_keys s) @ [nl])\<rparr>))"

text \<open>\<^verbatim>\<open>update_log_file\<close>: mode \<^verbatim>\<open>'a'\<close> creates the file when it does not exist.\<close>

definition update_log_file :: "string \<Rightarrow> ('w, 'p) learner \<Rightarrow> ('w, 'p) learner" where
  "update_log_file towrite s =
     s\<lparr>log_file :=
         Some ((case log_file s of None \<Rightarrow> [] | Some old \<Rightarrow> old) @ towrite @ [nl])\<rparr>"

subsection \<open>Loading a checkpoint\<close>

text \<open>
  \<^verbatim>\<open>load_model_dict\<close>. \<^verbatim>\<open>Path(None)\<close> raises \<^verbatim>\<open>TypeError\<close>; a key that is read
  with \<^verbatim>\<open>checkpoint[...]\<close> and is absent raises \<^verbatim>\<open>KeyError\<close>. With
  \<^verbatim>\<open>load_opt\<close>, \<open>new_opt\<close> is what \<^verbatim>\<open>self.prepare_optimizer()\<close> returns, and when
  the record has the key \<^verbatim>\<open>scheduler_state_dict\<close> the call
  \<^verbatim>\<open>self.prepare_scheduler()\<close> lacks the argument \<^verbatim>\<open>opt\<close> of that method and raises
  \<^verbatim>\<open>TypeError\<close>. What \<^verbatim>\<open>load_state_dict\<close> of the model or of the optimizer may
  raise by itself is not modelled.
\<close>

definition load_model_dict ::
  "'w \<Rightarrow> string option \<Rightarrow> bool \<Rightarrow> ('w, 'p) learner \<Rightarrow> py_error option \<times> ('w, 'p) learner" where
  "load_model_dict new_opt rp lo s =
     (case rp of
        None \<Rightarrow> (Some TypeError, s)
      | Some path \<Rightarrow>
          (case checkpoints s (if path = [] then model_file s else path) of
             Missing \<Rightarrow> (None, s)
           | Truncated \<Rightarrow> (Some LoadError, s)
           | Whole c \<Rightarrow>
               (case (if load_normally (cfg s)
                      then (case model_state_dict c of
                              None \<Rightarrow> Inl KeyError
                            | Some w \<Rightarrow> Inr (s\<lparr>mdl := w\<rparr>))
                      else Inr s) of
                  Inl e \<Rightarrow> (Some e, s)
                | Inr s1 \<Rightarrow>
                    (let s2 = (case ck_num_it c of
                                 Some v \<Rightarrow> s1\<lparr>num_it := v\<rparr> | None \<Rightarrow> s1);
                         s3 = (case ck_num_epoch c of
                                 Some v \<Rightarrow> s2\<lparr>num_epoch := v\<rparr> | None \<Rightarrow> s2);
                         s4 = (case ck_best_met c of
                                 Some v \<Rightarrow> s3\<lparr>best_met := v\<rparr> | None \<Rightarrow> s3)
                     in if lo
                        then (case optimizer_state_dict c of
                                None \<Rightarrow> (Some KeyError, s4\<lparr>optimizer := new_opt\<rparr>)
                              | Some w \<Rightarrow>
                                  (case scheduler_state_dict c of
                                     Some _ \<Rightarrow> (Some TypeError, s4\<lparr>optimizer := w\<rparr>)
                                   | None \<Rightarrow> (None, s4\<lparr>optimizer := w\<rparr>)))
                        else (None, s4)))))"


subsection \<open>What the collaborators do in an epoch\<close>

text \<open>
  The model, the loss, the evaluation function, the data loaders, the optimizer, the
  scheduler and the serialisers are given from outside. What they raise is a
  \<open>fault\<close>: \<open>Error m\<close> is an instance of \<^verbatim>\<open>Exception\<close> whose \<^verbatim>\<open>str\<close> is \<open>m\<close>;
  \<open>Interrupt\<close> is a \<^verbatim>\<open>KeyboardInterrupt\<close>, which \<^verbatim>\<open>except Exception\<close> does not
  catch and which can arrive between any two statements.
\<close>

datatype fault = Error string | Interrupt

text \<open>
  The places of the loop body of \<^verbatim>\<open>fit\<close> where a fault can come up, in the order
  of the body: \<^verbatim>\<open>train_epoch\<close>; \<^verbatim>\<open>validate\<close>; \<^verbatim>\<open>scheduler_step\<close>; the comparison
  \<^verbatim>\<open>self.best_met < met_to_use\<close>, after \<^verbatim>\<open>met_to_use\<close> is assigned and before
  \<^verbatim>\<open>best_met\<close> is; in \<^verbatim>\<open>save_model_dict\<close>, building the record and opening the
  file, and then \<^verbatim>\<open>torch.save\<close>; in \<^verbatim>\<open>update_prediction_file\<close>, opening the file,
  and then \<^verbatim>\<open>pickle.dump\<close>; \<^verbatim>\<open>prepare_to_write\<close>; \<^verbatim>\<open>update_log_file\<close>.
\<close>

datatype place =
  Train | Validate | SchedulerStep | Compare | SaveOpen | TorchSave
  | PredictionsOpen | PickleDump | PrepareToWrite | UpdateLog

text \<open>
  One epoch as the collaborators make it: the fault, if any, at each place; the number
  of batches that \<^verbatim>\<open>train_epoch\<close> starts; the state dictionaries of model and
  optimizer after training and of the scheduler after its step; the primary validation
  metric \<^verbatim>\<open>valid_acc[self.met_keys[0]]\<close>; the predictions; and the text that
  \<^verbatim>\<open>good_format_stats\<close> returns for the row of the epoch.
\<close>

record ('w, 'p) epoch_env =
  raises :: "place \<Rightarrow> fault option"
  batches :: nat
  mdl_after :: 'w
  optimizer_after :: 'w
  lr_scheduler_after :: 'w
  metric :: real
  predictions :: 'p
  stats :: string

text \<open>
  A call that raises \<open>r\<close>, if \<open>r\<close> is a fault, after the effect \<open>on_raise\<close>, and
  that otherwise returns after the effect \<open>on_return\<close>; and statements in sequence,
  where the first fault ends the sequence.
\<close>

definition call :: "fault option \<Rightarrow> ('a \<Rightarrow> 'a) \<Rightarrow> ('a \<Rightarrow> 'a) \<Rightarrow> 'a \<Rightarrow> fault option \<times> 'a" where
  "call r on_raise on_return x =
     (case r of Some f \<Rightarrow> (Some f, on_raise x) | None \<Rightarrow> (None, on_return x))"

fun steps :: "('a \<Rightarrow> fault option \<times> 'a) list \<Rightarrow> 'a \<Rightarrow> fault option \<times> 'a" where
  "steps [] x = (None, x)"
| "steps (k # ks) x =
     (case k x of (Some f, x') \<Rightarrow> (Some f, x') | (None, x') \<Rightarrow> steps ks x')"

subsection \<open>Saving\<close>

definition checkpoint_of :: "('w, 'p) learner \<Rightarrow> 'w checkpoint" where
  "checkpoint_of s =
     \<lparr>model_state_dict = Some (mdl s),
      optimizer_state_dict = Some (optimizer s),
      scheduler_state_dict = Some (lr_scheduler s),
      ck_num_it = Some (num_it s),
      ck_num_epoch = Some (num_epoch s),
      ck_cfgtxt = Some (json_dumps (cfg s)),
      ck_best_met = Some (best_met s)\<rparr>"

text \<open>
  \<^verbatim>\<open>torch.save(checkpoint, self.model_file.open('wb'))\<close>: the record is built, the
  file at the path \<^verbatim>\<open>model_file\<close> is opened for writing, which truncates it, and
  \<^verbatim>\<open>torch.save\<close> writes the record into it.
\<close>

definition open_wb :: "('w, 'p) learner \<Rightarrow> ('w, 'p) learner" where
  "open_wb s = s\<lparr>checkpoints := (checkpoints s)(model_file s := Truncated)\<rparr>"

definition torch_save :: "'w checkpoint \<Rightarrow> ('w, 'p) learner \<Rightarrow> ('w, 'p) learner" where
  "torch_save c s = s\<lparr>checkpoints := (checkpoints s)(model_file s := Whole c)\<rparr>"

definition save_model_dict ::
  "(place \<Rightarrow> fault option) \<Rightarrow> ('w, 'p) learner \<Rightarrow> fault option \<times> ('w, 'p) learner" where
  "save_model_dict r s =
     steps [call (r SaveOpen) id open_wb,
            call (r TorchSave) id (torch_save (checkpoint_of s))]
       (s\<lparr>calls := calls s @ [SaveModelDict (num_epoch s)]\<rparr>)"

text \<open>\<^verbatim>\<open>pickle.dump(predictions, self.predictions_file.open('wb'))\<close>.\<close>

definition update_prediction_file ::
  "(place \<Rightarrow> fault option) \<Rightarrow> 'p \<Rightarrow> ('w, 'p) learner \<Rightarrow> fault option \<times> ('w, 'p) learner" where
  "update_prediction_file r preds s =
     steps [call (r PredictionsOpen) id (\<lambda>s. s\<lparr>predictions_file := Truncated\<rparr>),
            call (r PickleDump) id (\<lambda>s. s\<lparr>predictions_file := Whole preds\<rparr>)]
       (s\<lparr>calls := calls s @ [UpdatePredictionFile (num_epoch s)]\<rparr>)"

subsection \<open>The training loop\<close>

text \<open>
  The local variables of \<^verbatim>\<open>fit\<close> that outlive an iteration, with the learner:
  \<open>epoch\<close> is the loop variable, unbound (\<open>None\<close>) until the loop assigns it;
  \<open>met_to_use\<close> starts as Python's \<^verbatim>\<open>None\<close>.
\<close>

record ('w, 'p) frame =
  epoch :: "nat option"
  met_to_use :: "real option"
  self :: "('w, 'p) learner"

definition on_self ::
  "(('w, 'p) learner \<Rightarrow> fault option \<times> ('w, 'p) learner)
     \<Rightarrow> ('w, 'p) frame \<Rightarrow> fault option \<times> ('w, 'p) frame" where
  "on_self m fr = (case m (self fr) of (r, s') \<Rightarrow> (r, fr\<lparr>self := s'\<rparr>))"

text \<open>
  \<^verbatim>\<open>train_epoch\<close> adds 1 to \<^verbatim>\<open>num_it\<close> for every batch it starts, also when it
  raises in the end.
\<close>

definition train_epoch ::
  "('w, 'p) epoch_env \<Rightarrow> ('w, 'p) learner \<Rightarrow> fault option \<times> ('w, 'p) learner" where
  "train_epoch e =
     (let run = (\<lambda>s. s\<lparr>num_it := num_it s + int (batches e),
                       mdl := mdl_after e, optimizer := optimizer_after e\<rparr>)
      in call (raises e Train) run run)"

definition scheduler_step ::
  "('w, 'p) epoch_env \<Rightarrow> ('w, 'p) learner \<Rightarrow> fault option \<times> ('w, 'p) learner" where
  "scheduler_step e =
     call (raises e SchedulerStep) id (\<lambda>s. s\<lparr>lr_scheduler := lr_scheduler_after e\<rparr>)"

text \<open>
  The statements under \<^verbatim>\<open>if self.best_met < met_to_use\<close>.
\<close>

definition decide_to_save ::
  "('w, 'p) epoch_env \<Rightarrow> ('w, 'p) learner \<Rightarrow> fault option \<times> ('w, 'p) learner" where
  "decide_to_save e s =
     (if best_met s < metric e
      then steps [save_model_dict (raises e),
                  update_prediction_file (raises e) (predictions e)]
             (s\<lparr>best_met := metric e\<rparr>)
      else (None, s))"

text \<open>The body of \<^verbatim>\<open>for epoch in mb\<close>, lines 412 to 440.\<close>

definition epoch_body ::
  "('w, 'p) epoch_env \<Rightarrow> ('w, 'p) frame \<Rightarrow> fault option \<times> ('w, 'p) frame" where
  "epoch_body e =
     steps [on_self (\<lambda>s. (None, s\<lparr>num_epoch := num_epoch s + 1\<rparr>)),
            on_self (train_epoch e),
            call (raises e Validate) id id,
            on_self (scheduler_step e),
            (\<lambda>fr. (None, fr\<lparr>met_to_use := Some (metric e)\<rparr>)),
            call (raises e Compare) id id,
            on_self (decide_to_save e),
            call (raises e PrepareToWrite) id id,
            on_self (call (raises e UpdateLog) id (update_log_file (stats e)))]"

fun epoch_loop ::
  "(nat \<Rightarrow> ('w, 'p) epoch_env) \<Rightarrow> nat list \<Rightarrow> ('w, 'p) frame
     \<Rightarrow> fault option \<times> ('w, 'p) frame" where
  "epoch_loop env [] fr = (None, fr)"
| "epoch_loop env (i # js) fr =
     (case epoch_body (env i) (fr\<lparr>epoch := Some i\<rparr>) of
        (Some f, fr') \<Rightarrow> (Some f, fr')
      | (None, fr') \<Rightarrow> epoch_loop env js fr')"

text \<open>
  What a run of \<^verbatim>\<open>fit\<close> gets from outside: the optimizer and the scheduler that
  \<^verbatim>\<open>prepare_optimizer\<close> and \<^verbatim>\<open>prepare_scheduler\<close> return, the two readings of
  \<^verbatim>\<open>time.time()\<close>, the text that the format \<^verbatim>\<open>: 0.4f\<close> gives for a number,
  the epochs by index, and the fault, if any, at each place of the \<^verbatim>\<open>finally\<close>
  block: \<open>UpdateLog\<close> for the call of \<^verbatim>\<open>update_log_file\<close> in line 447, \<open>SaveOpen\<close>
  and \<open>TorchSave\<close> for the call of \<^verbatim>\<open>save_model_dict\<close> in line 454.
\<close>

record ('w, 'p) run_env =
  prepared_optimizer :: 'w
  prepared_scheduler :: 'w
  st_time :: real
  end_time :: real
  fmt_time :: "real \<Rightarrow> string"
  epochs_env :: "nat \<Rightarrow> ('w, 'p) epoch_env"
  finally_raises :: "place \<Rightarrow> fault option"

definition no_fault :: "place \<Rightarrow> fault option" where
  "no_fault = (\<lambda>_. None)"

text \<open>
  The text of \<^verbatim>\<open>{exception}\<close>: the variable is \<^verbatim>\<open>False\<close> unless the
  \<^verbatim>\<open>except Exception\<close> clause has assigned the exception to it.
\<close>

fun exception_text :: "fault option \<Rightarrow> string" where
  "exception_text (Some (Error m)) = m"
| "exception_text (Some Interrupt) = ''False''"
| "exception_text None = ''False''"

text \<open>
  How a call of \<^verbatim>\<open>fit\<close> ends: it returns; the exception of the loop goes on to
  the caller; the \<^verbatim>\<open>finally\<close> block raises an error of the code itself; or a
  call inside the \<^verbatim>\<open>finally\<close> block raises a fault. An exception that is raised
  inside a \<^verbatim>\<open>finally\<close> block takes the place of the one that was on its way.
\<close>

datatype outcome = Returns | Reraises fault | Raises py_error | FinallyRaises fault

text \<open>
  The \<^verbatim>\<open>finally\<close> block; its result is \<open>None\<close> when it runs to its end. Reading
  the loop variable raises \<^verbatim>\<open>UnboundLocalError\<close> when the loop never assigned it.
  The calls of \<^verbatim>\<open>update_log_file\<close> and \<^verbatim>\<open>save_model_dict\<close> can raise as they
  can in the loop body, and what they raise ends the block.
  \<^verbatim>\<open>if met_to_use:\<close> tests the truth value, which is false for \<^verbatim>\<open>None\<close> and for
  a metric equal to 0.
\<close>

definition finally_block ::
  "('w, 'p) run_env \<Rightarrow> fault option \<Rightarrow> ('w, 'p) frame
     \<Rightarrow> outcome option \<times> ('w, 'p) learner" where
  "finally_block R r fr =
     (case epoch fr of
        None \<Rightarrow> (Some (Raises UnboundLocalError), self fr)
      | Some i \<Rightarrow>
          (case call (finally_raises R UpdateLog) id
                  (update_log_file
                     (''epochs done '' @ str_nat i
                      @ ''. Exited due to exception '' @ exception_text r
                      @ ''. Total time taken '' @ fmt_time R (end_time R - st_time R)
                      @ [nl, nl]))
                  (self fr) of
             (Some g, s1) \<Rightarrow> (Some (FinallyRaises g), s1)
           | (None, s1) \<Rightarrow>
               (case met_to_use fr of
                  None \<Rightarrow> (None, s1)
                | Some m \<Rightarrow>
                    if m \<noteq> 0
                    then (if best_met s1 < m
                          then (case save_model_dict (finally_raises R) s1 of
                                  (Some g, s2) \<Rightarrow> (Some (FinallyRaises g), s2)
                                | (None, s2) \<Rightarrow> (None, s2))
                          else (None, s1))
                    else (None, s1))))"

text \<open>
  \<^verbatim>\<open>fit\<close>: the optimizer and the scheduler are assigned before the loop, which
  runs over \<^verbatim>\<open>range(epochs)\<close>. When the \<^verbatim>\<open>finally\<close> block has run to its end,
  the exception of the loop, if there is one, goes on to the caller.
\<close>

definition start :: "('w, 'p) run_env \<Rightarrow> ('w, 'p) learner \<Rightarrow> ('w, 'p) frame" where
  "start R s =
     \<lparr>epoch = None, met_to_use = None,
      self = s\<lparr>optimizer := prepared_optimizer R, lr_scheduler := prepared_scheduler R\<rparr>\<rparr>"

definition fit ::
  "('w, 'p) run_env \<Rightarrow> int \<Rightarrow> ('w, 'p) learner \<Rightarrow> outcome \<times> ('w, 'p) learner" where
  "fit R epochs s =
     (case epoch_loop (epochs_env R) [0..<nat epochs] (start R s) of
        (r, fr) \<Rightarrow>
          (case finally_block R r fr of
             (Some out, s') \<Rightarrow> (out, s')
           | (None, s') \<Rightarrow> ((case r of None \<Rightarrow> Returns | Some f \<Rightarrow> Reraises f), s')))"

text \<open>
  The calls that are due over a sequence of metrics when a save is made exactly in
  the epochs whose metric is strictly above the best one so far: \<open>b\<close> is the best
  metric and \<open>k\<close> the number of the epoch before.
\<close>

fun saves_due :: "real \<Rightarrow> int \<Rightarrow> real list \<Rightarrow> call list" where
  "saves_due b k [] = []"
| "saves_due b k (m # ms) =
     (if b < m then [SaveModelDict (k + 1), UpdatePredictionFile (k + 1)] else [])
     @ saves_due (max b m) (k + 1) ms"

subsection \<open>Example values\<close>

text \<open>
  A configuration without resumption, a learner over it whose state dictionaries and
  predictions are numbers, an epoch with a given metric and given faults, a run over
  given epochs, and a checkpoint record of an older format that lacks the key
  \<^verbatim>\<open>num_it\<close>.
\<close>

definition example_cfg :: config where
  "example_cfg =
     \<lparr>resume = False, resume_path = [], load_opt = False, load_normally = True,
      del_existing = False, json_dumps = ''{}''\<rparr>"

definition example_learner :: "(nat, nat) learner" where
  "example_learner =
     \<lparr>cfg = example_cfg, loss_keys = [''L1''], met_keys = [''M1''],
      log_keys = [''epochs'', ''trn_L1'', ''val_L1'', ''trn_M1'', ''val_M1''],
      log_file = None, model_file = ''models/run.pth'',
      checkpoints = (\<lambda>_. Missing), predictions_file = Missing,
      num_it = 0, num_epoch = 0, best_met = 0,
      mdl = 0, optimizer = 0, lr_scheduler = 0, calls = []\<rparr>"

definition example_epoch :: "real \<Rightarrow> (place \<Rightarrow> fault option) \<Rightarrow> (nat, nat) epoch_env" where
  "example_epoch m r =
     \<lparr>raises = r, batches = 2, mdl_after = 1, optimizer_after = 1,
      lr_scheduler_after = 1, metric = m, predictions = 7, stats = ''row''\<rparr>"

definition example_run :: "(nat \<Rightarrow> (nat, nat) epoch_env) \<Rightarrow> (nat, nat) run_env" where
  "example_run env =
     \<lparr>prepared_optimizer = 0, prepared_scheduler = 0, st_time = 10, end_time = 12,
      fmt_time = (\<lambda>_. '' 2.0000''), epochs_env = env, finally_raises = no_fault\<rparr>"

definition example_checkpoint :: "nat checkpoint" where
  "example_checkpoint =
     \<lparr>model_state_dict = Some 3, optimizer_state_dict = Some 4,
      scheduler_state_dict = None, ck_num_it = None, ck_num_epoch = Some 2,
      ck_cfgtxt = None, ck_best_met = Some (9 / 10)\<rparr>"



section \<open>Properties\<close>

subsection \<open>The smoothed value\<close>

lemma add_value_returns:
  assumes "0 \<le> beta s" and "beta s < 1"
  shows "add_value x s =
           (None, s\<lparr>n_seen := Suc (n_seen s),
                    mov_avg := beta s * mov_avg s + (1 - beta s) * x,
                    smooth := (beta s * mov_avg s + (1 - beta s) * x)
                              / (1 - beta s ^ Suc (n_seen s))\<rparr>)"
proof -
  have "beta s ^ Suc (n_seen s) < 1"
    using assms less_eq_real_def power_Suc_less_one by auto
  then have "1 - beta s ^ Suc (n_seen s) \<noteq> 0"
    by simp
  then show ?thesis
    by (simp add: add_value_def Let_def)
qed

lemma add_values_returns:
  assumes "0 \<le> beta s" and "beta s < 1"
  shows "\<exists>s'. add_values xs s = (None, s')
           \<and> beta s' = beta s
           \<and> n_seen s' = n_seen s + length xs
           \<and> mov_avg s' = raw_ema (beta s) (mov_avg s) xs
           \<and> (xs = [] \<or> smooth s' = mov_avg s' / (1 - beta s ^ n_seen s'))"
  using assms
proof (induction xs arbitrary: s)
  case Nil
  then show ?case by simp
next
  case (Cons x xs)
  let ?s1 = "s\<lparr>n_seen := Suc (n_seen s),
               mov_avg := beta s * mov_avg s + (1 - beta s) * x,
               smooth := (beta s * mov_avg s + (1 - beta s) * x)
                         / (1 - beta s ^ Suc (n_seen s))\<rparr>"
  have step: "add_value x s = (None, ?s1)"
    using Cons.prems by (rule add_value_returns)
  have "0 \<le> beta ?s1" and "beta ?s1 < 1"
    using Cons.prems by simp_all
  from Cons.IH [OF this] obtain s' where
    run: "add_values xs ?s1 = (None, s')" and
    b: "beta s' = beta ?s1" and
    n: "n_seen s' = n_seen ?s1 + length xs" and
    m: "mov_avg s' = raw_ema (beta ?s1) (mov_avg ?s1) xs" and
    sm: "xs = [] \<or> smooth s' = mov_avg s' / (1 - beta ?s1 ^ n_seen s')"
    by blast
  have last: "smooth s' = mov_avg s' / (1 - beta s ^ n_seen s')"
  proof (cases "xs = []")
    case True
    with run have "s' = ?s1" by simp
    then show ?thesis by simp
  next
    case False
    with sm show ?thesis by simp
  qed
  show ?case
    using step run b n m last by simp
qed

text \<open>
  C6. For every decay \<open>b\<close> with \<open>0 \<le> b < 1\<close> and every non-empty sequence \<open>xs\<close> of
  values, the calls of \<^verbatim>\<open>add_value\<close> on a new \<^verbatim>\<open>SmoothenValue(b)\<close> all return, and
  then the counter is the number of calls, the moving average is the raw average
  updated as \<open>b * mov_avg + (1 - b) * x\<close>, the divisor \<open>1 - b ^ n\<close> is not zero, and
  \<open>smooth = mov_avg / (1 - b ^ n)\<close>.
\<close>

theorem smooth_is_bias_corrected:
  assumes "0 \<le> b" and "b < 1" and "xs \<noteq> []"
  shows "\<exists>s. add_values xs (SmoothenValue b) = (None, s)
           \<and> n_seen s = length xs
           \<and> mov_avg s = raw_ema b 0 xs
           \<and> 1 - b ^ n_seen s \<noteq> 0
           \<and> smooth s = mov_avg s / (1 - b ^ n_seen s)"
proof -
  have "0 \<le> beta (SmoothenValue b)" and "beta (SmoothenValue b) < 1"
    using assms by (simp_all add: SmoothenValue_def)
  from add_values_returns [OF this, of xs] obtain s where
    run: "add_values xs (SmoothenValue b) = (None, s)" and
    n: "n_seen s = length xs" and
    m: "mov_avg s = raw_ema b 0 xs" and
    sm: "xs = [] \<or> smooth s = mov_avg s / (1 - b ^ n_seen s)"
    by (auto simp: SmoothenValue_def)
  from assms(3) obtain k where k: "length xs = Suc k"
    by (cases xs) auto
  have "b ^ Suc k < 1"
    using assms(1,2) less_eq_real_def power_Suc_less_one by auto
  then have "1 - b ^ n_seen s \<noteq> 0"
    using n k by simp
  then show ?thesis
    using run n m sm assms(3) by blast
qed

theorem smooth_is_bias_corrected_witness:
  "\<exists>s. add_values [1, 3] (SmoothenValue (1 / 2)) = (None, s)
     \<and> n_seen s = 2 \<and> mov_avg s = 7 / 4 \<and> smooth s = 7 / 3"
proof -
  have "(0::real) \<le> 1 / 2" and "(1 / 2 ::real) < 1" and "[1, 3 :: real] \<noteq> []"
    by simp_all
  from smooth_is_bias_corrected [OF this] obtain s where
    "add_values [1, 3] (SmoothenValue (1 / 2)) = (None, s)"
    "n_seen s = length [1, 3 :: real]"
    "mov_avg s = raw_ema (1 / 2) 0 [1, 3]"
    "smooth s = mov_avg s / (1 - (1 / 2) ^ n_seen s)"
    by blast
  then show ?thesis
    by (simp add: power2_eq_square)
qed

subsection \<open>The weighted average\<close>

lemma sum_list_map2_nth:
  "length xs = length ys \<Longrightarrow>
     sum_list (map2 (*) xs ys) = (\<Sum>i<length xs. xs ! i * ys ! (i::nat) :: real)"
  by (auto simp: sum_list_sum_nth atLeast0LessThan intro!: sum.cong)

text \<open>
  C7, as the claim has it, fails: for sequences of different lengths of which one has
  length 1, \<^verbatim>\<open>compute_avg\<close> does not fail. The product broadcasts the single
  weight, and a value is returned.
\<close>

theorem compute_avg_broadcasts_counterexample:
  "length [2, 4 :: real] \<noteq> length [3 :: real] \<and> compute_avg [2, 4] [3] = Inr (Finite 6)"
  by (simp add: compute_avg_def stack_def tensor_mul_def tensor_div_def)

text \<open>
  C7, amended. For non-empty sequences of equal length \<^verbatim>\<open>compute_avg\<close> returns the
  quotient of \<open>\<Sum>i. inp[i] * nums[i]\<close> by \<open>\<Sum>i. nums[i]\<close>, so that
  \<^verbatim>\<open>compute_avg([2.0, 4.0], [1, 3])\<close> is 3.5. It raises \<^verbatim>\<open>RuntimeError\<close> (the
  file has no error class of its own) when the list of values is empty, and when the
  lengths differ and neither is 1. When the lengths differ and one of them is 1,
  the single element is broadcast and a value is returned.
\<close>

theorem compute_avg_weighted_mean:
  "(inp \<noteq> [] \<and> length inp = length nums \<longrightarrow>
      compute_avg inp nums =
        Inr (tensor_div (\<Sum>i<length inp. inp ! i * nums ! i) (sum_list nums)))
   \<and> (inp = [] \<longrightarrow> compute_avg inp nums = Inl RuntimeError)
   \<and> (length inp \<noteq> length nums \<and> length inp \<noteq> 1 \<and> length nums \<noteq> 1 \<longrightarrow>
      compute_avg inp nums = Inl RuntimeError)
   \<and> (length inp \<noteq> length nums \<and> inp = [x] \<longrightarrow>
      compute_avg inp nums = Inr (tensor_div (x * sum_list nums) (sum_list nums)))
   \<and> (length inp \<noteq> length nums \<and> inp \<noteq> [] \<and> nums = [w] \<longrightarrow>
      compute_avg inp nums = Inr (tensor_div (sum_list inp * w) w))
   \<and> compute_avg [2, 4] [1, 3] = Inr (Finite (7 / 2))"
proof (intro conjI impI)
  assume "inp \<noteq> [] \<and> length inp = length nums"
  then show "compute_avg inp nums =
        Inr (tensor_div (\<Sum>i<length inp. inp ! i * nums ! i) (sum_list nums))"
    by (simp add: compute_avg_def stack_def tensor_mul_def sum_list_map2_nth)
next
  assume "inp = []"
  then show "compute_avg inp nums = Inl RuntimeError"
    by (simp add: compute_avg_def stack_def)
next
  assume "length inp \<noteq> length nums \<and> length inp \<noteq> 1 \<and> length nums \<noteq> 1"
  then show "compute_avg inp nums = Inl RuntimeError"
    by (simp add: compute_avg_def stack_def tensor_mul_def)
next
  assume "length inp \<noteq> length nums \<and> inp = [x]"
  then show "compute_avg inp nums = Inr (tensor_div (x * sum_list nums) (sum_list nums))"
    by (auto simp add: compute_avg_def stack_def tensor_mul_def sum_list_const_mult)
next
  assume a: "length inp \<noteq> length nums \<and> inp \<noteq> [] \<and> nums = [w]"
  then have "sum_list (map (\<lambda>v. v * w) inp) = sum_list inp * w"
    by (simp add: sum_list_mult_const)
  with a show "compute_avg inp nums = Inr (tensor_div (sum_list inp * w) w)"
    by (auto simp add: compute_avg_def stack_def tensor_mul_def)
next
  show "compute_avg [2, 4] [1, 3] = Inr (Finite (7 / 2))"
    by (simp add: compute_avg_def stack_def tensor_mul_def tensor_div_def)
qed

theorem compute_avg_weighted_mean_witness:
  "compute_avg [2, 4] [1, 3] = Inr (Finite (7 / 2))
   \<and> compute_avg [] [1] = Inl RuntimeError
   \<and> compute_avg [1, 2, 3] [1, 1] = Inl RuntimeError
   \<and> compute_avg [2] [1, 3] = Inr (Finite 2)
   \<and> compute_avg [2, 4] [3] = Inr (Finite 6)"
  using compute_avg_weighted_mean [of "[2, 4]" "[1, 3]" 0 0]
    compute_avg_weighted_mean [of "[]" "[1]" 0 0]
    compute_avg_weighted_mean [of "[1, 2, 3]" "[1, 1]" 0 0]
    compute_avg_weighted_mean [of "[2]" "[1, 3]" 2 0]
    compute_avg_weighted_mean [of "[2, 4]" "[3]" 0 3]
  by (simp add: tensor_div_def)

subsection \<open>Preparing the log file\<close>

text \<open>
  C8, as the claim has it, fails: when the log file exists and deletion is not
  requested, \<^verbatim>\<open>prepare_log_file\<close> does write the configuration, the separator and
  the header row again, after the text the file has.
\<close>

theorem prepare_log_file_rewrites_counterexample:
  "\<not> del_existing (cfg (example_learner\<lparr>log_file := Some ''old''\<rparr>))
   \<and> log_file (snd (prepare_log_file (example_learner\<lparr>log_file := Some ''old''\<rparr>)))
       = Some (''old'' @ ''{}'' @ [nl, nl]
               @ ''epochs  trn_L1  val_L1  trn_M1  val_M1'' @ [nl])"
  by (simp add: prepare_log_file_def example_learner_def example_cfg_def)

text \<open>
  C8, amended. Every call of \<^verbatim>\<open>prepare_log_file\<close> that returns writes the
  serialised configuration, the blank separator line and the column-header row: into
  an empty file when no log file exists, and after the existing text when a log file
  exists and deletion is not requested.
\<close>

theorem prepare_log_file_writes_every_time:
  "(log_file s = None \<longrightarrow>
      prepare_log_file s =
        (None, s\<lparr>log_file :=
           Some (json_dumps (cfg s) @ [nl, nl] @ str_join ''  '' (log_keys s) @ [nl])\<rparr>))
   \<and> (log_file s = Some old \<and> \<not> del_existing (cfg s) \<longrightarrow>
      prepare_log_file s =
        (None, s\<lparr>log_file :=
           Some (old @ json_dumps (cfg s) @ [nl, nl] @ str_join ''  '' (log_keys s) @ [nl])\<rparr>))"
  by (simp add: prepare_log_file_def)

theorem prepare_log_file_writes_every_time_witness:
  "prepare_log_file example_learner =
     (None, example_learner\<lparr>log_file :=
        Some (''{}'' @ [nl, nl] @ ''epochs  trn_L1  val_L1  trn_M1  val_M1'' @ [nl])\<rparr>)
   \<and> prepare_log_file (example_learner\<lparr>log_file := Some ''old''\<rparr>) =
     (None, example_learner\<lparr>log_file :=
        Some (''old'' @ ''{}'' @ [nl, nl] @ ''epochs  trn_L1  val_L1  trn_M1  val_M1'' @ [nl])\<rparr>)"
  using prepare_log_file_writes_every_time [of example_learner "[]"]
    prepare_log_file_writes_every_time [of "example_learner\<lparr>log_file := Some ''old''\<rparr>" "''old''"]
  by (simp add: example_learner_def example_cfg_def)

text \<open>
  C9. When the log file exists and \<^verbatim>\<open>del_existing\<close> is set, the claim has the
  prior log directory removed and a new log file started. The code raises
  \<^verbatim>\<open>AttributeError\<close> on \<^verbatim>\<open>self.log_dir\<close> before either happens, and leaves
  the log file as it was.
\<close>

theorem prepare_log_file_del_existing_raises:
  "prepare_log_file (s\<lparr>log_file := Some old, cfg := (cfg s)\<lparr>del_existing := True\<rparr>\<rparr>)
     = (Some AttributeError, s\<lparr>log_file := Some old, cfg := (cfg s)\<lparr>del_existing := True\<rparr>\<rparr>)"
  by (simp add: prepare_log_file_def)

subsection \<open>Loading a checkpoint\<close>

text \<open>
  C5. Loading from a path where no file exists returns without raising and leaves the
  learner as it was. When a checkpoint record is found and the load returns, each of
  \<^verbatim>\<open>num_it\<close>, \<^verbatim>\<open>num_epoch\<close> and \<^verbatim>\<open>best_met\<close> has the value of its key in the
  record if the key is present, and keeps the value it had otherwise.
\<close>

theorem load_model_dict_restores_present_fields:
  "(checkpoints s (if path = [] then model_file s else path) = Missing \<longrightarrow>
      load_model_dict new_opt (Some path) lo s = (None, s))
   \<and> (checkpoints s (if path = [] then model_file s else path) = Whole c
        \<and> load_model_dict new_opt (Some path) lo s = (None, s') \<longrightarrow>
      num_it s' = (case ck_num_it c of Some v \<Rightarrow> v | None \<Rightarrow> num_it s)
      \<and> num_epoch s' = (case ck_num_epoch c of Some v \<Rightarrow> v | None \<Rightarrow> num_epoch s)
      \<and> best_met s' = (case ck_best_met c of Some v \<Rightarrow> v | None \<Rightarrow> best_met s))"
  by (auto simp: load_model_dict_def Let_def split: option.splits if_splits sum.splits)

theorem load_model_dict_restores_present_fields_witness:
  "load_model_dict 0 (Some ''nowhere.pth'') True (example_learner\<lparr>num_it := 5\<rparr>)
     = (None, example_learner\<lparr>num_it := 5\<rparr>)
   \<and> (\<exists>s'. load_model_dict 0 (Some []) False
          (example_learner\<lparr>num_it := 5,
             checkpoints := (\<lambda>_. Missing)(''models/run.pth'' := Whole example_checkpoint)\<rparr>)
          = (None, s')
        \<and> num_it s' = 5 \<and> num_epoch s' = 2 \<and> best_met s' = 9 / 10)"
proof -
  let ?s = "example_learner\<lparr>num_it := 5,
           checkpoints := (\<lambda>_. Missing)(''models/run.pth'' := Whole example_checkpoint)\<rparr>"
  define s' where "s' = snd (load_model_dict 0 (Some []) False ?s)"
  have run: "load_model_dict 0 (Some []) False ?s = (None, s')"
    unfolding s'_def
    by (simp add: load_model_dict_def example_learner_def example_cfg_def
        example_checkpoint_def)
  have found: "checkpoints ?s (if [] = [] then model_file ?s else []) = Whole example_checkpoint"
    by (simp add: example_learner_def)
  have "num_it s' = (case ck_num_it example_checkpoint of Some v \<Rightarrow> v | None \<Rightarrow> num_it ?s)
      \<and> num_epoch s' = (case ck_num_epoch example_checkpoint of Some v \<Rightarrow> v | None \<Rightarrow> num_epoch ?s)
      \<and> best_met s' = (case ck_best_met example_checkpoint of Some v \<Rightarrow> v | None \<Rightarrow> best_met ?s)"
    using load_model_dict_restores_present_fields
            [where s = ?s and path = "[]" and c = example_checkpoint and new_opt = 0
               and lo = False and s' = s'] run found
    by blast
  then have vals: "num_it s' = 5 \<and> num_epoch s' = 2 \<and> best_met s' = 9 / 10"
    by (simp add: example_checkpoint_def)
  have absent: "checkpoints (example_learner\<lparr>num_it := 5\<rparr>)
      (if ''nowhere.pth'' = [] then model_file (example_learner\<lparr>num_it := 5\<rparr>)
       else ''nowhere.pth'') = Missing"
    by (simp add: example_learner_def)
  have "load_model_dict 0 (Some ''nowhere.pth'') True (example_learner\<lparr>num_it := 5\<rparr>)
     = (None, example_learner\<lparr>num_it := 5\<rparr>)"
    using load_model_dict_restores_present_fields
            [where s = "example_learner\<lparr>num_it := 5\<rparr>" and path = "''nowhere.pth''"
               and new_opt = 0 and lo = True] absent
    by blast
  with run vals show ?thesis
    by blast
qed

subsection \<open>The training loop\<close>

lemmas body_defs =
  epoch_body_def on_self_def train_epoch_def scheduler_step_def decide_to_save_def
  save_model_dict_def update_prediction_file_def call_def open_wb_def torch_save_def
  update_log_file_def Let_def




lemma epoch_body_no_fault:
  assumes "raises e = no_fault"
  shows "\<exists>fr'. epoch_body e fr = (None, fr')
     \<and> epoch fr' = epoch fr
     \<and> met_to_use fr' = Some (metric e)
     \<and> num_epoch (self fr') = num_epoch (self fr) + 1
     \<and> best_met (self fr') = max (best_met (self fr)) (metric e)
     \<and> calls (self fr') = calls (self fr) @
          (if best_met (self fr) < metric e
           then [SaveModelDict (num_epoch (self fr) + 1),
                 UpdatePredictionFile (num_epoch (self fr) + 1)]
           else [])"
  using assms by (simp add: body_defs no_fault_def max_def)
















lemma fit_state:
  assumes "epoch_loop (epochs_env R) [0..<nat epochs] (start R s) = (r, fr)"
  shows "snd (fit R epochs s) = snd (finally_block R r fr)"
  using assms by (simp add: fit_def split: prod.splits option.splits)


lemma finally_block_quiet:
  assumes "met_to_use fr = None \<or> (\<exists>m. met_to_use fr = Some m \<and> m \<le> best_met (self fr))"
  shows "calls (snd (finally_block R r fr)) = calls (self fr)
     \<and> checkpoints (snd (finally_block R r fr)) = checkpoints (self fr)
     \<and> predictions_file (snd (finally_block R r fr)) = predictions_file (self fr)"
  using assms
  by (auto simp: finally_block_def call_def update_log_file_def split: option.splits)

lemma epoch_loop_no_fault:
  assumes "\<forall>i\<in>set js. raises (env i) = no_fault"
  shows "\<exists>fr'. epoch_loop env js fr = (None, fr')
     \<and> calls (self fr') = calls (self fr) @
          saves_due (best_met (self fr)) (num_epoch (self fr)) (map (\<lambda>i. metric (env i)) js)
     \<and> (js = [] \<longrightarrow> fr' = fr)
     \<and> (js \<noteq> [] \<longrightarrow> epoch fr' = Some (last js)
            \<and> (\<exists>m. met_to_use fr' = Some m \<and> m \<le> best_met (self fr')))"
  using assms
proof (induction js arbitrary: fr)
  case Nil
  then show ?case by simp
next
  case (Cons i js)
  from Cons.prems have "raises (env i) = no_fault"
    by simp
  from epoch_body_no_fault [OF this, of "fr\<lparr>epoch := Some i\<rparr>"] obtain fr1 where
    body: "epoch_body (env i) (fr\<lparr>epoch := Some i\<rparr>) = (None, fr1)" and
    ep: "epoch fr1 = Some i" and
    met: "met_to_use fr1 = Some (metric (env i))" and
    num: "num_epoch (self fr1) = num_epoch (self fr) + 1" and
    best: "best_met (self fr1) = max (best_met (self fr)) (metric (env i))" and
    cl: "calls (self fr1) = calls (self fr) @
          (if best_met (self fr) < metric (env i)
           then [SaveModelDict (num_epoch (self fr) + 1),
                 UpdatePredictionFile (num_epoch (self fr) + 1)]
           else [])"
    by auto
  from Cons.prems have "\<forall>i\<in>set js. raises (env i) = no_fault"
    by simp
  from Cons.IH [OF this, of fr1] obtain fr' where
    loop: "epoch_loop env js fr1 = (None, fr')" and
    cl': "calls (self fr') = calls (self fr1) @
          saves_due (best_met (self fr1)) (num_epoch (self fr1)) (map (\<lambda>i. metric (env i)) js)" and
    nil: "js = [] \<longrightarrow> fr' = fr1" and
    cons: "js \<noteq> [] \<longrightarrow> epoch fr' = Some (last js)
            \<and> (\<exists>m. met_to_use fr' = Some m \<and> m \<le> best_met (self fr'))"
    by blast
  have "epoch_loop env (i # js) fr = (None, fr')"
    using body loop by simp
  moreover have "calls (self fr') = calls (self fr) @
      saves_due (best_met (self fr)) (num_epoch (self fr)) (map (\<lambda>i. metric (env i)) (i # js))"
    using cl cl' num best by simp
  moreover have "epoch fr' = Some (last (i # js))
      \<and> (\<exists>m. met_to_use fr' = Some m \<and> m \<le> best_met (self fr'))"
  proof (cases "js = []")
    case True
    with nil have "fr' = fr1" by simp
    with True ep met best show ?thesis by simp
  next
    case False
    with cons show ?thesis by simp
  qed
  ultimately show ?case
    by simp
qed

lemma fit_no_fault_calls:
  assumes "\<forall>i<nat epochs. raises (epochs_env R i) = no_fault"
  shows "calls (snd (fit R epochs s)) = calls s @
      saves_due (best_met s) (num_epoch s) (map (\<lambda>i. metric (epochs_env R i)) [0..<nat epochs])"
proof -
  from assms have "\<forall>i\<in>set [0..<nat epochs]. raises (epochs_env R i) = no_fault"
    by simp
  from epoch_loop_no_fault [OF this, of "start R s"] obtain fr' where
    loop: "epoch_loop (epochs_env R) [0..<nat epochs] (start R s) = (None, fr')" and
    cl: "calls (self fr') = calls (self (start R s)) @
          saves_due (best_met (self (start R s))) (num_epoch (self (start R s)))
            (map (\<lambda>i. metric (epochs_env R i)) [0..<nat epochs])" and
    nil: "[0..<nat epochs] = [] \<longrightarrow> fr' = start R s" and
    cons: "[0..<nat epochs] \<noteq> [] \<longrightarrow> epoch fr' = Some (last [0..<nat epochs])
            \<and> (\<exists>m. met_to_use fr' = Some m \<and> m \<le> best_met (self fr'))"
    by blast
  have "met_to_use fr' = None \<or> (\<exists>m. met_to_use fr' = Some m \<and> m \<le> best_met (self fr'))"
  proof (cases "[0..<nat epochs] = []")
    case True
    with nil show ?thesis
      by (simp add: start_def)
  next
    case False
    with cons show ?thesis
      by blast
  qed
  then have fin: "calls (snd (finally_block R None fr')) = calls (self fr')"
    using finally_block_quiet [of fr' R None] by blast
  have "snd (fit R epochs s) = snd (finally_block R None fr')"
    using loop by (rule fit_state)
  with fin cl show ?thesis
    by (simp add: start_def)
qed


text \<open>
  C2. The best metric seen so far is the attribute \<^verbatim>\<open>best_met\<close>. In an epoch in
  which no call raises, \<^verbatim>\<open>save_model_dict\<close> and \<^verbatim>\<open>update_prediction_file\<close> are
  called, and the checkpoint and the predictions file written, if the metric of the
  epoch is strictly above \<^verbatim>\<open>best_met\<close>; otherwise neither is called and both files
  stay as they are. Over a run in which no call raises, the calls made are those due
  by strict improvement over the sequence of metrics. The witness is the sequence
  0.5, 0.5, 0.6, 0.4 from a new learner: the saves are those of the epochs 1 and 3.
\<close>

theorem saves_exactly_on_strict_improvement:
  "(raises e = no_fault \<longrightarrow>
      (\<exists>fr'. epoch_body e fr = (None, fr')
         \<and> (if best_met (self fr) < metric e
             then calls (self fr') = calls (self fr) @
                    [SaveModelDict (num_epoch (self fr) + 1),
                     UpdatePredictionFile (num_epoch (self fr) + 1)]
                  \<and> (\<exists>c. checkpoints (self fr') (model_file (self fr)) = Whole c
                         \<and> ck_num_epoch c = Some (num_epoch (self fr) + 1)
                         \<and> ck_best_met c = Some (metric e))
                  \<and> predictions_file (self fr') = Whole (predictions e)
                  \<and> best_met (self fr') = metric e
             else calls (self fr') = calls (self fr)
                  \<and> checkpoints (self fr') = checkpoints (self fr)
                  \<and> predictions_file (self fr') = predictions_file (self fr)
                  \<and> best_met (self fr') = best_met (self fr))))
   \<and> ((\<forall>i<nat epochs. raises (epochs_env R i) = no_fault) \<longrightarrow>
      calls (snd (fit R epochs s)) = calls s @
        saves_due (best_met s) (num_epoch s)
          (map (\<lambda>i. metric (epochs_env R i)) [0..<nat epochs]))"
proof (intro conjI impI)
  assume "raises e = no_fault"
  then show "\<exists>fr'. epoch_body e fr = (None, fr')
         \<and> (if best_met (self fr) < metric e
             then calls (self fr') = calls (self fr) @
                    [SaveModelDict (num_epoch (self fr) + 1),
                     UpdatePredictionFile (num_epoch (self fr) + 1)]
                  \<and> (\<exists>c. checkpoints (self fr') (model_file (self fr)) = Whole c
                         \<and> ck_num_epoch c = Some (num_epoch (self fr) + 1)
                         \<and> ck_best_met c = Some (metric e))
                  \<and> predictions_file (self fr') = Whole (predictions e)
                  \<and> best_met (self fr') = metric e
             else calls (self fr') = calls (self fr)
                  \<and> checkpoints (self fr') = checkpoints (self fr)
                  \<and> predictions_file (self fr') = predictions_file (self fr)
                  \<and> best_met (self fr') = best_met (self fr))"
    by (simp add: body_defs no_fault_def checkpoint_of_def)
next
  assume "\<forall>i<nat epochs. raises (epochs_env R i) = no_fault"
  then show "calls (snd (fit R epochs s)) = calls s @
        saves_due (best_met s) (num_epoch s)
          (map (\<lambda>i. metric (epochs_env R i)) [0..<nat epochs])"
    by (rule fit_no_fault_calls)
qed

lemma upt_0_4: "[0..<4] = [0, 1, 2, Suc 2]"
  by (simp add: upt_rec)

theorem saves_exactly_on_strict_improvement_witness:
  "calls (snd (fit (example_run (\<lambda>i. example_epoch ([1 / 2, 1 / 2, 3 / 5, 2 / 5] ! i) no_fault))
                4 example_learner))
     = [SaveModelDict 1, UpdatePredictionFile 1, SaveModelDict 3, UpdatePredictionFile 3]
   \<and> (\<exists>fr'. epoch_body (example_epoch (1 / 2) no_fault) (start (example_run (\<lambda>i. example_epoch 0 no_fault)) example_learner)
               = (None, fr')
        \<and> calls (self fr') = [SaveModelDict 1, UpdatePredictionFile 1]
        \<and> predictions_file (self fr') = Whole 7)"
proof -
  let ?R = "example_run (\<lambda>i. example_epoch ([1 / 2, 1 / 2, 3 / 5, 2 / 5] ! i) no_fault)"
  have quiet: "\<forall>i<nat 4. raises (epochs_env ?R i) = no_fault"
    by (simp add: example_run_def example_epoch_def)
  have one: "raises (example_epoch (1 / 2) no_fault :: (nat, nat) epoch_env) = no_fault"
    by (simp add: example_epoch_def)
  note inst = saves_exactly_on_strict_improvement
            [where R = ?R and epochs = 4 and s = example_learner
               and e = "example_epoch (1 / 2) no_fault"
               and fr = "start (example_run (\<lambda>i. example_epoch 0 no_fault)) example_learner"]
  from inst quiet have "calls (snd (fit ?R 4 example_learner)) = calls example_learner @
        saves_due (best_met example_learner) (num_epoch example_learner)
          (map (\<lambda>i. metric (epochs_env ?R i)) [0..<nat 4])"
    by blast
  then have run: "calls (snd (fit ?R 4 example_learner))
     = [SaveModelDict 1, UpdatePredictionFile 1, SaveModelDict 3, UpdatePredictionFile 3]"
    by (simp add: example_run_def example_epoch_def example_learner_def upt_0_4)
  from inst one obtain fr' where
    "epoch_body (example_epoch (1 / 2) no_fault) (start (example_run (\<lambda>i. example_epoch 0 no_fault)) example_learner)
       = (None, fr')"
    "if best_met (self (start (example_run (\<lambda>i. example_epoch 0 no_fault)) example_learner))
          < metric (example_epoch (1 / 2) no_fault :: (nat, nat) epoch_env)
     then calls (self fr') = calls (self (start (example_run (\<lambda>i. example_epoch 0 no_fault)) example_learner)) @
            [SaveModelDict (num_epoch (self (start (example_run (\<lambda>i. example_epoch 0 no_fault)) example_learner)) + 1),
             UpdatePredictionFile (num_epoch (self (start (example_run (\<lambda>i. example_epoch 0 no_fault)) example_learner)) + 1)]
          \<and> (\<exists>c. checkpoints (self fr') (model_file (self (start (example_run (\<lambda>i. example_epoch 0 no_fault)) example_learner))) = Whole c
                 \<and> ck_num_epoch c = Some (num_epoch (self (start (example_run (\<lambda>i. example_epoch 0 no_fault)) example_learner)) + 1)
                 \<and> ck_best_met c = Some (metric (example_epoch (1 / 2) no_fault :: (nat, nat) epoch_env)))
          \<and> predictions_file (self fr') = Whole (predictions (example_epoch (1 / 2) no_fault :: (nat, nat) epoch_env))
          \<and> best_met (self fr') = metric (example_epoch (1 / 2) no_fault :: (nat, nat) epoch_env)
     else calls (self fr') = calls (self (start (example_run (\<lambda>i. example_epoch 0 no_fault)) example_learner))
          \<and> checkpoints (self fr') = checkpoints (self (start (example_run (\<lambda>i. example_epoch 0 no_fault)) example_learner))
          \<and> predictions_file (self fr') = predictions_file (self (start (example_run (\<lambda>i. example_epoch 0 no_fault)) example_learner))
          \<and> best_met (self fr') = best_met (self (start (example_run (\<lambda>i. example_epoch 0 no_fault)) example_learner))"
    by blast
  then have "epoch_body (example_epoch (1 / 2) no_fault) (start (example_run (\<lambda>i. example_epoch 0 no_fault)) example_learner)
       = (None, fr')
     \<and> calls (self fr') = [SaveModelDict 1, UpdatePredictionFile 1]
     \<and> predictions_file (self fr') = Whole 7"
    by (simp add: example_run_def example_epoch_def example_learner_def start_def)
  with run show ?thesis
    by blast
qed

subsection \<open>Saving a checkpoint\<close>

text \<open>
  C3, as the claim has it, fails: the save opens the file at the canonical path itself
  for writing, and from then until \<^verbatim>\<open>torch.save\<close> has finished the file there is
  truncated, neither the previous record nor the new one. When \<^verbatim>\<open>torch.save\<close>
  raises, the file stays so.
\<close>

theorem save_model_dict_truncates_counterexample:
  "checkpoints (example_learner\<lparr>checkpoints :=
        (\<lambda>_. Missing)(''models/run.pth'' := Whole example_checkpoint)\<rparr>) ''models/run.pth''
     = Whole example_checkpoint
   \<and> checkpoints (open_wb (example_learner\<lparr>checkpoints :=
        (\<lambda>_. Missing)(''models/run.pth'' := Whole example_checkpoint)\<rparr>)) ''models/run.pth''
     = Truncated
   \<and> checkpoints (snd (save_model_dict (no_fault(TorchSave := Some (Error ''disk full'')))
        (example_learner\<lparr>checkpoints :=
           (\<lambda>_. Missing)(''models/run.pth'' := Whole example_checkpoint)\<rparr>))) ''models/run.pth''
     = Truncated
   \<and> Truncated \<noteq> Whole example_checkpoint
   \<and> Truncated \<noteq> Whole (checkpoint_of (example_learner\<lparr>checkpoints :=
        (\<lambda>_. Missing)(''models/run.pth'' := Whole example_checkpoint)\<rparr>))"
  by (simp add: save_model_dict_def call_def open_wb_def no_fault_def example_learner_def)

text \<open>
  C3, amended. A save writes in place: it opens the file at the canonical checkpoint
  path for writing, which truncates it, and then writes the record into it. No other
  path is written and nothing is renamed. A save that returns leaves the complete new
  record at the canonical path; a save in which \<^verbatim>\<open>torch.save\<close> raises leaves a
  truncated file there; a save that raises before the file is opened leaves the
  file as it was.
\<close>

theorem save_model_dict_in_place:
  "(r SaveOpen = None \<and> r TorchSave = None \<longrightarrow>
      (\<exists>s'. save_model_dict r s = (None, s')
         \<and> checkpoints s' = (checkpoints s)(model_file s := Whole (checkpoint_of s))))
   \<and> (r SaveOpen = None \<and> r TorchSave = Some f \<longrightarrow>
      (\<exists>s'. save_model_dict r s = (Some f, s')
         \<and> checkpoints s' = (checkpoints s)(model_file s := Truncated)))
   \<and> (r SaveOpen = Some f \<longrightarrow>
      (\<exists>s'. save_model_dict r s = (Some f, s') \<and> checkpoints s' = checkpoints s))
   \<and> (p \<noteq> model_file s \<longrightarrow>
      checkpoints (snd (save_model_dict r s)) p = checkpoints s p)
   \<and> checkpoints (open_wb s) = (checkpoints s)(model_file s := Truncated)"
  by (auto simp: save_model_dict_def call_def open_wb_def torch_save_def checkpoint_of_def
        split: option.splits)

theorem save_model_dict_in_place_witness:
  "checkpoints (snd (save_model_dict no_fault example_learner)) ''models/run.pth''
     = Whole (checkpoint_of example_learner)
   \<and> checkpoints (snd (save_model_dict (no_fault(TorchSave := Some (Error ''disk full'')))
        example_learner)) ''models/run.pth'' = Truncated
   \<and> checkpoints (snd (save_model_dict (no_fault(SaveOpen := Some (Error ''denied'')))
        example_learner)) ''models/run.pth'' = Missing
   \<and> checkpoints (snd (save_model_dict no_fault example_learner)) ''models/run.tmp'' = Missing"
proof -
  have m: "model_file example_learner = ''models/run.pth''"
    and c: "checkpoints example_learner = (\<lambda>_. Missing)"
    by (simp_all add: example_learner_def)
  have "checkpoints (snd (save_model_dict no_fault example_learner)) ''models/run.pth''
     = Whole (checkpoint_of example_learner)"
    using save_model_dict_in_place
        [where r = no_fault and s = example_learner and f = Interrupt and p = "[]"] m
    by (auto simp: no_fault_def)
  moreover have "checkpoints (snd (save_model_dict (no_fault(TorchSave := Some (Error ''disk full'')))
        example_learner)) ''models/run.pth'' = Truncated"
    using save_model_dict_in_place
        [where r = "no_fault(TorchSave := Some (Error ''disk full''))" and s = example_learner
           and f = "Error ''disk full''" and p = "[]"] m
    by (auto simp: no_fault_def)
  moreover have "checkpoints (snd (save_model_dict (no_fault(SaveOpen := Some (Error ''denied'')))
        example_learner)) ''models/run.pth'' = Missing"
    using save_model_dict_in_place
        [where r = "no_fault(SaveOpen := Some (Error ''denied''))" and s = example_learner
           and f = "Error ''denied''" and p = "[]"] m c
    by (auto simp: no_fault_def)
  moreover have "checkpoints (snd (save_model_dict no_fault example_learner)) ''models/run.tmp''
     = Missing"
    using save_model_dict_in_place
        [where r = no_fault and s = example_learner and f = Interrupt and p = "''models/run.tmp''"]
      m c
    by simp
  ultimately show ?thesis
    by blast
qed
















end
